theory Spec2Isabelle
  imports Complex_Main
begin

section \<open>Numbers\<close>

text \<open>
  The statistics code works on JavaScript numbers. Counts and goal totals are natural
  numbers. A computed average or percentage is a \<open>jsnum\<close>: an exact rational, or \<open>None\<close>
  for the non-finite values \<open>NaN\<close> and \<open>Infinity\<close> that a division by zero produces
  (JavaScript does not throw there). Binary floating-point rounding is idealised away:
  the quotient \<open>count / total * 100\<close> is the exact fraction.
\<close>

type_synonym jsnum = "rat option"

definition js_div :: "rat \<Rightarrow> rat \<Rightarrow> jsnum" where
  "js_div a b = (if b = 0 then None else Some (a / b))"

text \<open>
  \<open>Number(x.toFixed(d))\<close>: \<open>toFixed\<close> takes the integer \<open>n\<close> for which \<open>n / 10^d\<close> is closest
  to \<open>x\<close>, the larger \<open>n\<close> on a tie, after moving the sign of a negative \<open>x\<close> out; \<open>Number\<close>
  reads the decimal string back. A non-finite number stays non-finite.
\<close>

definition toFixed :: "nat \<Rightarrow> rat \<Rightarrow> rat" where
  "toFixed d x =
     (if x < 0 then - (of_int \<lfloor>(- x) * 10 ^ d + 1 / 2\<rfloor> / 10 ^ d)
      else of_int \<lfloor>x * 10 ^ d + 1 / 2\<rfloor> / 10 ^ d)"

text \<open>The recurring expression \<open>Number(((c / n) * 100).toFixed(1))\<close>.\<close>

definition percentage_of :: "nat \<Rightarrow> nat \<Rightarrow> jsnum" where
  "percentage_of c n = map_option (\<lambda>q. toFixed 1 (q * 100)) (js_div (of_nat c) (of_nat n))"

text \<open>\<open>x || 0\<close> on a nullable count: \<open>null\<close> (and \<open>0\<close> itself) gives \<open>0\<close>.\<close>

definition or_zero :: "nat option \<Rightarrow> nat" where
  "or_zero x = (case x of None \<Rightarrow> 0 | Some v \<Rightarrow> v)"

text \<open>The decimal string of a non-negative integer, as a template literal prints it.\<close>

definition digit_char :: "nat \<Rightarrow> char" where
  "digit_char n = ''0123456789'' ! n"

fun nat_to_string :: "nat \<Rightarrow> string" where
  "nat_to_string n =
     (if n < 10 then [digit_char n] else nat_to_string (n div 10) @ [digit_char (n mod 10)])"

declare nat_to_string.simps [simp del]

text \<open>
  \<open>Array.prototype.sort\<close> with a comparator is a stable sort; its result for a consistent
  comparator does not depend on the algorithm. It is modelled by insertion from the right:
  an element goes in front of the first later element it does not exceed.
\<close>

fun js_insert :: "('a \<Rightarrow> 'a \<Rightarrow> int) \<Rightarrow> 'a \<Rightarrow> 'a list \<Rightarrow> 'a list" where
  "js_insert cmp x [] = [x]"
| "js_insert cmp x (y # ys) = (if cmp x y \<le> 0 then x # y # ys else y # js_insert cmp x ys)"

definition js_sort :: "('a \<Rightarrow> 'a \<Rightarrow> int) \<Rightarrow> 'a list \<Rightarrow> 'a list" where
  "js_sort cmp xs = foldr (js_insert cmp) xs []"

section \<open>Match rows and basic statistics\<close>

text \<open>
  The row type of the \<open>matches\<close> table is generated code outside the sources; its fields are
  the ones the functions read. Goal counts are non-negative integers, the half-time goal
  columns are nullable, \<open>result_computed\<close> is a string that the code compares with
  \<open>'H'\<close>, \<open>'D'\<close> and \<open>'A'\<close>, and \<open>match_time\<close> is a timestamp, here a number.
\<close>

record Match =
  home_team :: string
  away_team :: string
  full_time_home_goals :: nat
  full_time_away_goals :: nat
  half_time_home_goals :: "nat option"
  half_time_away_goals :: "nat option"
  result_computed :: string
  btts_computed :: bool
  comeback_computed :: bool
  match_time :: nat

record MatchStats =
  total_matches :: nat
  home_wins :: nat
  draws :: nat
  away_wins :: nat
  btts_count :: nat
  comeback_count :: nat
  avg_goals :: jsnum
  home_win_percentage :: jsnum
  draw_percentage :: jsnum
  away_win_percentage :: jsnum
  btts_percentage :: jsnum
  comeback_percentage :: jsnum

definition calculateBasicStats :: "Match list \<Rightarrow> MatchStats" where
  "calculateBasicStats matches =
     (if length matches = 0 then
        \<lparr>total_matches = 0, home_wins = 0, draws = 0, away_wins = 0, btts_count = 0,
         comeback_count = 0, avg_goals = Some 0, home_win_percentage = Some 0,
         draw_percentage = Some 0, away_win_percentage = Some 0, btts_percentage = Some 0,
         comeback_percentage = Some 0\<rparr>
      else
        let totalMatches = length matches;
            homeWins = length (filter (\<lambda>m. result_computed m = ''H'') matches);
            draws' = length (filter (\<lambda>m. result_computed m = ''D'') matches);
            awayWins = length (filter (\<lambda>m. result_computed m = ''A'') matches);
            bttsCount = length (filter (\<lambda>m. btts_computed m = True) matches);
            comebackCount = length (filter (\<lambda>m. comeback_computed m = True) matches);
            totalGoals =
              foldl (\<lambda>sum match. sum + full_time_home_goals match + full_time_away_goals match)
                0 matches;
            avgGoals = js_div (of_nat totalGoals) (of_nat totalMatches)
        in \<lparr>total_matches = totalMatches, home_wins = homeWins, draws = draws',
            away_wins = awayWins, btts_count = bttsCount, comeback_count = comebackCount,
            avg_goals = map_option (toFixed 1) avgGoals,
            home_win_percentage = percentage_of homeWins totalMatches,
            draw_percentage = percentage_of draws' totalMatches,
            away_win_percentage = percentage_of awayWins totalMatches,
            btts_percentage = percentage_of bttsCount totalMatches,
            comeback_percentage = percentage_of comebackCount totalMatches\<rparr>)"

section \<open>Detailed statistics\<close>

record GoalStats =
  home_goals_total :: nat
  away_goals_total :: nat
  home_goals_per_match :: jsnum
  away_goals_per_match :: jsnum
  home_clean_sheets :: nat
  away_clean_sheets :: nat
  home_clean_sheet_percentage :: jsnum
  away_clean_sheet_percentage :: jsnum

record OverUnder =
  over_25_count :: nat
  under_25_count :: nat
  over_25_percentage :: jsnum
  under_25_percentage :: jsnum
  over_35_count :: nat
  over_35_percentage :: jsnum

record FrequentResult =
  result :: string
  count :: nat
  percentage :: jsnum

record HalfTimeAnalysis =
  ht_home_leads :: nat
  ht_away_leads :: nat
  ht_draws :: nat
  ht_home_lead_to_win :: nat
  ht_home_lead_to_draw :: nat
  ht_home_lead_to_loss :: nat
  ht_away_lead_to_win :: nat
  ht_away_lead_to_draw :: nat
  ht_away_lead_to_loss :: nat
  home_lead_hold_percentage :: jsnum
  away_lead_hold_percentage :: jsnum

record DetailedMatchStats =
  basic :: MatchStats
  goalStats :: GoalStats
  overUnder :: OverUnder
  frequentResults :: "FrequentResult list"
  halfTimeAnalysis :: HalfTimeAnalysis

text \<open>The template literal \<open>`${match.full_time_home_goals}-${match.full_time_away_goals}`\<close>.\<close>

definition scoreline :: "Match \<Rightarrow> string" where
  "scoreline match =
     nat_to_string (full_time_home_goals match) @ ''-'' @ nat_to_string (full_time_away_goals match)"

text \<open>
  The object \<open>resultFrequency\<close> is an association list in insertion order, the order in
  which \<open>Object.entries\<close> lists string keys that are not array indices (a key with a \<open>-\<close>
  in it never is one). \<open>bump\<close> is the statement
  \<open>resultFrequency[result] = (resultFrequency[result] || 0) + 1\<close>.
\<close>

fun bump :: "string \<Rightarrow> (string \<times> nat) list \<Rightarrow> (string \<times> nat) list" where
  "bump k [] = [(k, 0 + 1)]"
| "bump k ((k', c) # kvs) = (if k' = k then (k', c + 1) # kvs else (k', c) # bump k kvs)"

definition resultFrequency_of :: "Match list \<Rightarrow> (string \<times> nat) list" where
  "resultFrequency_of matches = foldl (\<lambda>freq match. bump (scoreline match) freq) [] matches"

definition frequentResults_of :: "Match list \<Rightarrow> FrequentResult list" where
  "frequentResults_of matches =
     take 4
       (js_sort (\<lambda>a b. int (count b) - int (count a))
          (map (\<lambda>(result', count').
                  \<lparr>result = result', count = count',
                   percentage = percentage_of count' (length matches)\<rparr>)
             (resultFrequency_of matches)))"

text \<open>The nine counters of the half-time loop and one iteration of its body.\<close>

record HalfTimeCounters =
  htHomeLeads :: nat
  htAwayLeads :: nat
  htDraws :: nat
  htHomeLeadToWin :: nat
  htHomeLeadToDraw :: nat
  htHomeLeadToLoss :: nat
  htAwayLeadToWin :: nat
  htAwayLeadToDraw :: nat
  htAwayLeadToLoss :: nat

definition zero_counters :: HalfTimeCounters where
  "zero_counters =
     \<lparr>htHomeLeads = 0, htAwayLeads = 0, htDraws = 0,
      htHomeLeadToWin = 0, htHomeLeadToDraw = 0, htHomeLeadToLoss = 0,
      htAwayLeadToWin = 0, htAwayLeadToDraw = 0, htAwayLeadToLoss = 0\<rparr>"

definition ht_step :: "HalfTimeCounters \<Rightarrow> Match \<Rightarrow> HalfTimeCounters" where
  "ht_step c match =
     (let htHomeGoals = or_zero (half_time_home_goals match);
          htAwayGoals = or_zero (half_time_away_goals match);
          ftResult = result_computed match
      in if htHomeGoals > htAwayGoals then
           (let c = c\<lparr>htHomeLeads := htHomeLeads c + 1\<rparr>
            in if ftResult = ''H'' then c\<lparr>htHomeLeadToWin := htHomeLeadToWin c + 1\<rparr>
               else if ftResult = ''D'' then c\<lparr>htHomeLeadToDraw := htHomeLeadToDraw c + 1\<rparr>
               else c\<lparr>htHomeLeadToLoss := htHomeLeadToLoss c + 1\<rparr>)
         else if htAwayGoals > htHomeGoals then
           (let c = c\<lparr>htAwayLeads := htAwayLeads c + 1\<rparr>
            in if ftResult = ''A'' then c\<lparr>htAwayLeadToWin := htAwayLeadToWin c + 1\<rparr>
               else if ftResult = ''D'' then c\<lparr>htAwayLeadToDraw := htAwayLeadToDraw c + 1\<rparr>
               else c\<lparr>htAwayLeadToLoss := htAwayLeadToLoss c + 1\<rparr>)
         else c\<lparr>htDraws := htDraws c + 1\<rparr>)"

definition halfTime_loop :: "Match list \<Rightarrow> HalfTimeCounters" where
  "halfTime_loop matches = foldl ht_step zero_counters matches"

definition calculateDetailedStats :: "Match list \<Rightarrow> DetailedMatchStats" where
  "calculateDetailedStats matches =
     (let basic' = calculateBasicStats matches
      in if length matches = 0 then
           \<lparr>basic = basic',
            goalStats =
              \<lparr>home_goals_total = 0, away_goals_total = 0, home_goals_per_match = Some 0,
               away_goals_per_match = Some 0, home_clean_sheets = 0, away_clean_sheets = 0,
               home_clean_sheet_percentage = Some 0, away_clean_sheet_percentage = Some 0\<rparr>,
            overUnder =
              \<lparr>over_25_count = 0, under_25_count = 0, over_25_percentage = Some 0,
               under_25_percentage = Some 0, over_35_count = 0, over_35_percentage = Some 0\<rparr>,
            frequentResults = [],
            halfTimeAnalysis =
              \<lparr>ht_home_leads = 0, ht_away_leads = 0, ht_draws = 0,
               ht_home_lead_to_win = 0, ht_home_lead_to_draw = 0, ht_home_lead_to_loss = 0,
               ht_away_lead_to_win = 0, ht_away_lead_to_draw = 0, ht_away_lead_to_loss = 0,
               home_lead_hold_percentage = Some 0, away_lead_hold_percentage = Some 0\<rparr>\<rparr>
         else
           let totalMatches = length matches;
               homeGoalsTotal = foldl (\<lambda>sum m. sum + full_time_home_goals m) 0 matches;
               awayGoalsTotal = foldl (\<lambda>sum m. sum + full_time_away_goals m) 0 matches;
               homeCleanSheets = length (filter (\<lambda>m. full_time_away_goals m = 0) matches);
               awayCleanSheets = length (filter (\<lambda>m. full_time_home_goals m = 0) matches);
               over25Count =
                 length (filter (\<lambda>m. (of_nat (full_time_home_goals m + full_time_away_goals m) :: rat)
                                      > 25 / 10) matches);
               over35Count =
                 length (filter (\<lambda>m. (of_nat (full_time_home_goals m + full_time_away_goals m) :: rat)
                                      > 35 / 10) matches);
               frequentResults' = frequentResults_of matches;
               c = halfTime_loop matches
           in \<lparr>basic = basic',
               goalStats =
                 \<lparr>home_goals_total = homeGoalsTotal, away_goals_total = awayGoalsTotal,
                  home_goals_per_match =
                    map_option (toFixed 2) (js_div (of_nat homeGoalsTotal) (of_nat totalMatches)),
                  away_goals_per_match =
                    map_option (toFixed 2) (js_div (of_nat awayGoalsTotal) (of_nat totalMatches)),
                  home_clean_sheets = homeCleanSheets, away_clean_sheets = awayCleanSheets,
                  home_clean_sheet_percentage = percentage_of homeCleanSheets totalMatches,
                  away_clean_sheet_percentage = percentage_of awayCleanSheets totalMatches\<rparr>,
               overUnder =
                 \<lparr>over_25_count = over25Count, under_25_count = totalMatches - over25Count,
                  over_25_percentage = percentage_of over25Count totalMatches,
                  under_25_percentage = percentage_of (totalMatches - over25Count) totalMatches,
                  over_35_count = over35Count,
                  over_35_percentage = percentage_of over35Count totalMatches\<rparr>,
               frequentResults = frequentResults',
               halfTimeAnalysis =
                 \<lparr>ht_home_leads = htHomeLeads c, ht_away_leads = htAwayLeads c,
                  ht_draws = htDraws c,
                  ht_home_lead_to_win = htHomeLeadToWin c,
                  ht_home_lead_to_draw = htHomeLeadToDraw c,
                  ht_home_lead_to_loss = htHomeLeadToLoss c,
                  ht_away_lead_to_win = htAwayLeadToWin c,
                  ht_away_lead_to_draw = htAwayLeadToDraw c,
                  ht_away_lead_to_loss = htAwayLeadToLoss c,
                  home_lead_hold_percentage =
                    (if htHomeLeads c > 0 then percentage_of (htHomeLeadToWin c) (htHomeLeads c)
                     else Some 0),
                  away_lead_hold_percentage =
                    (if htAwayLeads c > 0 then percentage_of (htAwayLeadToWin c) (htAwayLeads c)
                     else Some 0)\<rparr>\<rparr>)"

section \<open>Feature extraction\<close>

text \<open>
  The match-query collaborator answers each query with a response whose \<open>data\<close> is a row
  list or \<open>null\<close>, or the awaited call rejects. A thrown value is an \<open>Error\<close> object with
  its message or anything else. The three queries of the engine are the fields of
  \<open>Database\<close>: rows with the team at home, rows with the team away, and rows between two
  teams, each ordered by \<open>match_time\<close> descending and limited to 10.

  Field names that several interfaces of the source share carry a prefix here
  (\<open>h2h_\<close>, \<open>hist_\<close>, \<open>input_\<close>, \<open>features_\<close>, \<open>model_\<close>, \<open>state_\<close>), and the
  constructors of the outcome and last-result tags carry their type's name. Message texts
  are written without their accents.
\<close>

datatype thrown = Error string | NonError

type_synonym query_response = "thrown + Match list option"

record Database =
  home_query :: "string \<Rightarrow> query_response"
  away_query :: "string \<Rightarrow> query_response"
  h2h_query :: "string \<Rightarrow> string \<Rightarrow> query_response"

text \<open>
  \<open>Promise.all\<close>: the values in the order of the promises when all fulfil, a rejection
  otherwise. Which rejection is reported depends on timing; the model reports the first in
  list order.
\<close>

fun promise_all :: "('e + 'a) list \<Rightarrow> 'e + 'a list" where
  "promise_all [] = Inr []"
| "promise_all (p # ps) =
     (case p of
        Inl e \<Rightarrow> Inl e
      | Inr v \<Rightarrow> (case promise_all ps of Inl e \<Rightarrow> Inl e | Inr vs \<Rightarrow> Inr (v # vs)))"

record TransitionMatrix =
  ht_h_to_ft_h :: rat
  ht_h_to_ft_d :: rat
  ht_h_to_ft_a :: rat
  ht_d_to_ft_h :: rat
  ht_d_to_ft_d :: rat
  ht_d_to_ft_a :: rat
  ht_a_to_ft_h :: rat
  ht_a_to_ft_d :: rat
  ht_a_to_ft_a :: rat

datatype StreakType = WIN | DRAW | LOSS | MIXED

record FormFeatures =
  recent_form_home :: "rat list"
  recent_form_away :: "rat list"
  recent_form_overall :: "rat list"
  current_streak :: int
  streak_type :: StreakType
  momentum_score :: rat

record GoalFeatures =
  avg_goals_scored_home :: jsnum
  avg_goals_scored_away :: jsnum
  avg_goals_conceded_home :: jsnum
  avg_goals_conceded_away :: jsnum
  btts_percentage_home :: jsnum
  btts_percentage_away :: jsnum
  clean_sheet_percentage_home :: jsnum
  clean_sheet_percentage_away :: jsnum
  comeback_ability :: jsnum
  lead_holding :: rat

datatype LastResult = LastW | LastD | LastL

record HeadToHeadRecord =
  opponent_id :: string
  matches_played :: nat
  wins :: nat
  h2h_draws :: nat
  losses :: nat
  last_result :: LastResult
  avg_goals_for :: rat
  avg_goals_against :: rat
  halftime_to_fulltime_pattern :: TransitionMatrix

record HistoricalFeatures =
  total_matches_played :: nat
  hist_home_win_percentage :: jsnum
  hist_away_win_percentage :: jsnum
  hist_draw_percentage :: jsnum
  head_to_head_record :: "HeadToHeadRecord list"

record TeamFeatures =
  team_id :: string
  team_name :: string
  last_updated :: string
  form_features :: FormFeatures
  goal_features :: GoalFeatures
  historical_features :: HistoricalFeatures

record HeadToHeadFeatures =
  h2h_matches_played :: nat
  home_advantage :: jsnum
  h2h_avg_goals :: jsnum
  btts_rate :: jsnum
  transition_matrix :: TransitionMatrix

text \<open>The helper methods of the engine; most are placeholders that ignore their arguments.\<close>

definition calculateStreak :: "Match list \<Rightarrow> string \<Rightarrow> int" where
  "calculateStreak matches teamName = 0"

definition getStreakType :: "Match list \<Rightarrow> string \<Rightarrow> StreakType" where
  "getStreakType matches teamName = MIXED"

definition calculateMomentum :: "Match list \<Rightarrow> string \<Rightarrow> rat" where
  "calculateMomentum matches teamName = 0"

definition calculateLeadHolding :: "Match list \<Rightarrow> string \<Rightarrow> rat" where
  "calculateLeadHolding matches teamName = 50"

definition getDefaultTransitionMatrix :: TransitionMatrix where
  "getDefaultTransitionMatrix =
     \<lparr>ht_h_to_ft_h = 65 / 100, ht_h_to_ft_d = 25 / 100, ht_h_to_ft_a = 10 / 100,
      ht_d_to_ft_h = 35 / 100, ht_d_to_ft_d = 30 / 100, ht_d_to_ft_a = 35 / 100,
      ht_a_to_ft_h = 10 / 100, ht_a_to_ft_d = 25 / 100, ht_a_to_ft_a = 65 / 100\<rparr>"

definition calculateTransitionMatrix :: "Match list \<Rightarrow> TransitionMatrix" where
  "calculateTransitionMatrix matches = getDefaultTransitionMatrix"

text \<open>
  The body of \<open>getTeamFeatures\<close> after the two queries have answered: \<open>homeData\<close> and
  \<open>awayData\<close> are \<open>homeMatches.data || []\<close> and \<open>awayMatches.data || []\<close>, and \<open>now\<close> is
  the clock reading \<open>new Date().toISOString()\<close>.
\<close>

definition teamFeatures_of :: "string \<Rightarrow> string \<Rightarrow> Match list \<Rightarrow> Match list \<Rightarrow> TeamFeatures" where
  "teamFeatures_of now teamName homeData awayData =
     (let homeForm =
            map (\<lambda>m. if result_computed m = ''H'' then 1
                      else if result_computed m = ''D'' then 1 / 2 else 0) (take 5 homeData);
          awayForm =
            map (\<lambda>m. if result_computed m = ''A'' then 1
                      else if result_computed m = ''D'' then 1 / 2 else 0) (take 5 awayData);
          homeGoalsScored = foldl (\<lambda>sum m. sum + full_time_home_goals m) 0 homeData;
          homeGoalsConceded = foldl (\<lambda>sum m. sum + full_time_away_goals m) 0 homeData;
          awayGoalsScored = foldl (\<lambda>sum m. sum + full_time_away_goals m) 0 awayData;
          awayGoalsConceded = foldl (\<lambda>sum m. sum + full_time_home_goals m) 0 awayData;
          times100 = map_option (\<lambda>q. q * 100)
      in \<lparr>team_id = teamName, team_name = teamName, last_updated = now,
          form_features =
            \<lparr>recent_form_home = homeForm, recent_form_away = awayForm,
             recent_form_overall = take 5 (homeForm @ awayForm),
             current_streak = calculateStreak (homeData @ awayData) teamName,
             streak_type = getStreakType (homeData @ awayData) teamName,
             momentum_score = calculateMomentum (homeData @ awayData) teamName\<rparr>,
          goal_features =
            \<lparr>avg_goals_scored_home =
               (if length homeData > 0
                then js_div (of_nat homeGoalsScored) (of_nat (length homeData)) else Some 0),
             avg_goals_scored_away =
               (if length awayData > 0
                then js_div (of_nat awayGoalsScored) (of_nat (length awayData)) else Some 0),
             avg_goals_conceded_home =
               (if length homeData > 0
                then js_div (of_nat homeGoalsConceded) (of_nat (length homeData)) else Some 0),
             avg_goals_conceded_away =
               (if length awayData > 0
                then js_div (of_nat awayGoalsConceded) (of_nat (length awayData)) else Some 0),
             btts_percentage_home =
               times100 (js_div (of_nat (length (filter btts_computed homeData)))
                           (of_nat (max (length homeData) 1))),
             btts_percentage_away =
               times100 (js_div (of_nat (length (filter btts_computed awayData)))
                           (of_nat (max (length awayData) 1))),
             clean_sheet_percentage_home =
               times100 (js_div (of_nat (length (filter (\<lambda>m. full_time_away_goals m = 0) homeData)))
                           (of_nat (max (length homeData) 1))),
             clean_sheet_percentage_away =
               times100 (js_div (of_nat (length (filter (\<lambda>m. full_time_home_goals m = 0) awayData)))
                           (of_nat (max (length awayData) 1))),
             comeback_ability =
               times100 (js_div (of_nat (length (filter comeback_computed (homeData @ awayData))))
                           (of_nat (max (length (homeData @ awayData)) 1))),
             lead_holding = calculateLeadHolding (homeData @ awayData) teamName\<rparr>,
          historical_features =
            \<lparr>total_matches_played = length homeData + length awayData,
             hist_home_win_percentage =
               times100 (js_div (of_nat (length (filter (\<lambda>m. result_computed m = ''H'') homeData)))
                           (of_nat (max (length homeData) 1))),
             hist_away_win_percentage =
               times100 (js_div (of_nat (length (filter (\<lambda>m. result_computed m = ''A'') awayData)))
                           (of_nat (max (length awayData) 1))),
             hist_draw_percentage =
               times100 (js_div (of_nat (length (filter (\<lambda>m. result_computed m = ''D'')
                                                   (homeData @ awayData))))
                           (of_nat (max (length (homeData @ awayData)) 1))),
             head_to_head_record = []\<rparr>\<rparr>)"

definition data_or_empty :: "Match list option \<Rightarrow> Match list" where
  "data_or_empty d = (case d of None \<Rightarrow> [] | Some rows \<Rightarrow> rows)"

text \<open>
  \<open>getTeamFeatures\<close> awaits both queries with \<open>Promise.all\<close> and rejects when one of them
  does.
\<close>

definition getTeamFeatures :: "Database \<Rightarrow> string \<Rightarrow> string \<Rightarrow> thrown + TeamFeatures" where
  "getTeamFeatures db now teamName =
     (case home_query db teamName of
        Inl e \<Rightarrow> Inl e
      | Inr homeMatches \<Rightarrow>
          (case away_query db teamName of
             Inl e \<Rightarrow> Inl e
           | Inr awayMatches \<Rightarrow>
               Inr (teamFeatures_of now teamName
                      (data_or_empty homeMatches) (data_or_empty awayMatches))))"

definition getHeadToHeadFeatures ::
    "Database \<Rightarrow> string \<Rightarrow> string \<Rightarrow> thrown + HeadToHeadFeatures" where
  "getHeadToHeadFeatures db homeTeam awayTeam =
     (case h2h_query db homeTeam awayTeam of
        Inl e \<Rightarrow> Inl e
      | Inr h2hMatches \<Rightarrow>
          if (case h2hMatches of None \<Rightarrow> True | Some rows \<Rightarrow> length rows = 0) then
            Inr \<lparr>h2h_matches_played = 0, home_advantage = Some 0, h2h_avg_goals = Some 0,
                 btts_rate = Some 0, transition_matrix = getDefaultTransitionMatrix\<rparr>
          else
            let rows = data_or_empty h2hMatches;
                homeWins =
                  length (filter (\<lambda>m. (home_team m = homeTeam \<and> result_computed m = ''H'')
                                     \<or> (away_team m = homeTeam \<and> result_computed m = ''A'')) rows)
            in Inr \<lparr>h2h_matches_played = length rows,
                    home_advantage = js_div (of_nat homeWins) (of_nat (length rows)),
                    h2h_avg_goals =
                      js_div (of_nat (foldl (\<lambda>sum m. sum + full_time_home_goals m
                                                      + full_time_away_goals m) 0 rows))
                        (of_nat (length rows)),
                    btts_rate =
                      js_div (of_nat (length (filter btts_computed rows))) (of_nat (length rows)),
                    transition_matrix = calculateTransitionMatrix rows\<rparr>)"

section \<open>The prediction engine\<close>

record MatchContext =
  season :: "string option"
  date :: "string option"
  fixture_order :: "nat option"
  home_venue :: "string option"
  competition :: "string option"

record PredictionInput =
  input_home_team :: string
  input_away_team :: string
  halftime_home_goals :: "nat option"
  halftime_away_goals :: "nat option"
  match_context :: "MatchContext option"

record HalftimeState =
  home_goals :: nat
  away_goals :: nat
  goal_difference :: int

record Features =
  features_home_team :: TeamFeatures
  features_away_team :: TeamFeatures
  head_to_head :: HeadToHeadFeatures
  halftime_state :: "HalftimeState option"

datatype Outcome = OutcomeH | OutcomeD | OutcomeA

datatype ConfidenceLevel = LOW | MEDIUM | HIGH

record Predictions =
  home_win_probability :: rat
  draw_probability :: rat
  away_win_probability :: rat
  most_likely_outcome :: Outcome
  confidence_score :: rat

record FeatureImportance =
  feature_name :: string
  importance :: rat
  feature_value :: rat
  feature_description :: string

record ModelPrediction =
  home_win :: rat
  draw :: rat
  away_win :: rat

record ModelExplanation =
  model_name :: string
  weight :: rat
  model_prediction :: ModelPrediction
  key_features :: "FeatureImportance list"

record ScoreProbability =
  score_home_goals :: nat
  score_away_goals :: nat
  probability :: rat

record ScorelinePredictions =
  most_likely_score :: string
  score_probabilities :: "ScoreProbability list"

record PredictionMetadata =
  model_version :: string
  prediction_timestamp :: string
  data_quality_score :: rat
  prediction_confidence :: ConfidenceLevel
  warning_flags :: "string list"

record PredictionOutput =
  match_id :: "string option"
  predictions :: Predictions
  scoreline_predictions :: "ScorelinePredictions option"
  model_explanations :: "ModelExplanation list"
  prediction_metadata :: PredictionMetadata

text \<open>
  \<open>prepareFeatures\<close> awaits the three extractions with \<open>Promise.all\<close>; an absent
  \<open>halftime_home_goals\<close> is \<open>undefined\<close>.
\<close>

definition prepareFeatures :: "Database \<Rightarrow> string \<Rightarrow> PredictionInput \<Rightarrow> thrown + Features" where
  "prepareFeatures db now input =
     (case getTeamFeatures db now (input_home_team input) of
        Inl e \<Rightarrow> Inl e
      | Inr homeFeatures \<Rightarrow>
          (case getTeamFeatures db now (input_away_team input) of
             Inl e \<Rightarrow> Inl e
           | Inr awayFeatures \<Rightarrow>
               (case getHeadToHeadFeatures db (input_home_team input) (input_away_team input) of
                  Inl e \<Rightarrow> Inl e
                | Inr h2hFeatures \<Rightarrow>
                    Inr \<lparr>features_home_team = homeFeatures,
                         features_away_team = awayFeatures,
                         head_to_head = h2hFeatures,
                         halftime_state =
                           (case halftime_home_goals input of
                              None \<Rightarrow> None
                            | Some hg \<Rightarrow>
                                Some \<lparr>home_goals = hg,
                                      away_goals = or_zero (halftime_away_goals input),
                                      goal_difference =
                                        int hg - int (or_zero (halftime_away_goals input))\<rparr>)\<rparr>)))"

definition assessDataQuality :: "Features \<Rightarrow> rat" where
  "assessDataQuality features = 85 / 100"

definition runAllModels :: "Features \<Rightarrow> ModelExplanation list" where
  "runAllModels features = []"

definition combineModels :: "ModelExplanation list \<Rightarrow> Predictions" where
  "combineModels predictions' =
     \<lparr>home_win_probability = 5 / 10, draw_probability = 25 / 100,
      away_win_probability = 25 / 100, most_likely_outcome = OutcomeH,
      confidence_score = 75 / 100\<rparr>"

definition getConfidenceLevel :: "rat \<Rightarrow> ConfidenceLevel" where
  "getConfidenceLevel score =
     (if score \<ge> 8 / 10 then HIGH else if score \<ge> 6 / 10 then MEDIUM else LOW)"

definition generateWarnings :: "Features \<Rightarrow> rat \<Rightarrow> string list" where
  "generateWarnings features qualityScore =
     (if qualityScore < 7 / 10 then [''Limitalt torteneti adat''] else [])"

text \<open>
  The object that \<open>predict\<close> returns in its fifth step, as a function of the values the
  earlier steps computed.
\<close>

definition prediction_result ::
    "string \<Rightarrow> Features \<Rightarrow> rat \<Rightarrow> ModelExplanation list \<Rightarrow> Predictions \<Rightarrow> PredictionOutput" where
  "prediction_result now features qualityScore modelPredictions finalPrediction =
     \<lparr>match_id = None,
      predictions = finalPrediction,
      scoreline_predictions = None,
      model_explanations = modelPredictions,
      prediction_metadata =
        \<lparr>model_version = ''v1.0'',
         prediction_timestamp = now,
         data_quality_score = qualityScore,
         prediction_confidence = getConfidenceLevel (confidence_score finalPrediction),
         warning_flags = generateWarnings features qualityScore\<rparr>\<rparr>"

text \<open>\<open>predict\<close>: whatever is thrown inside the \<open>try\<close> block is replaced by one \<open>Error\<close>.\<close>

definition predict :: "Database \<Rightarrow> string \<Rightarrow> PredictionInput \<Rightarrow> thrown + PredictionOutput" where
  "predict db now input =
     (case prepareFeatures db now input of
        Inl error \<Rightarrow> Inl (Error ''Predikcios hiba tortent'')
      | Inr features \<Rightarrow>
          let qualityScore = assessDataQuality features;
              modelPredictions = runAllModels features;
              finalPrediction = combineModels modelPredictions
          in Inr (prediction_result now features qualityScore modelPredictions finalPrediction))"

section \<open>The prediction hook\<close>

record Toast =
  title :: string
  description :: string
  variant :: "string option"

record HookState =
  isLoading :: bool
  state_prediction :: "PredictionOutput option"
  state_error :: "string option"
  toasts :: "Toast list"

text \<open>
  \<open>predictBatch\<close> returns its result list and the hook state after the \<open>finally\<close> block.
\<close>

definition predictBatch ::
    "Database \<Rightarrow> string \<Rightarrow> PredictionInput list \<Rightarrow> HookState \<Rightarrow> PredictionOutput list \<times> HookState" where
  "predictBatch db now inputs st =
     (let st = st\<lparr>isLoading := True\<rparr>;
          st = st\<lparr>state_error := None\<rparr>
      in case promise_all (map (\<lambda>input. predict db now input) inputs) of
           Inr results \<Rightarrow>
             (let st = st\<lparr>toasts := toasts st @
                          [\<lparr>title = ''Batch predikcio kesz'',
                            description =
                              nat_to_string (length results) @ '' merkozes elorejelzese elkeszult'',
                            variant = None\<rparr>]\<rparr>
              in (results, st\<lparr>isLoading := False\<rparr>))
         | Inl err \<Rightarrow>
             (let errorMessage =
                    (case err of Error message \<Rightarrow> message
                     | NonError \<Rightarrow> ''Batch predikcios hiba tortent'');
                  st = st\<lparr>state_error := Some errorMessage\<rparr>;
                  st = st\<lparr>toasts := toasts st @
                          [\<lparr>title = ''Batch predikcios hiba'', description = errorMessage,
                            variant = Some ''destructive''\<rparr>]\<rparr>
              in ([], st\<lparr>isLoading := False\<rparr>)))"

section \<open>Reference notions of the specification\<close>


text \<open>
  The specification's overall form: the results of the five most recent matches of the
  team, home and away together, encoded from the team's side.
\<close>

definition team_result_value :: "string \<Rightarrow> Match \<Rightarrow> rat" where
  "team_result_value teamName m =
     (if result_computed m = ''D'' then 1 / 2
      else if home_team m = teamName \<and> result_computed m = ''H'' then 1
      else if away_team m = teamName \<and> result_computed m = ''A'' then 1
      else 0)"

definition spec_recent_form_overall :: "string \<Rightarrow> Match list \<Rightarrow> Match list \<Rightarrow> rat list" where
  "spec_recent_form_overall teamName homeData awayData =
     map (team_result_value teamName)
       (take 5 (js_sort (\<lambda>a b. int (match_time b) - int (match_time a)) (homeData @ awayData)))"

section \<open>Example data\<close>

text \<open>
  A well-formed row: the computed columns follow from the goals, as the table computes
  them.
\<close>

definition example_row ::
    "string \<Rightarrow> string \<Rightarrow> nat \<Rightarrow> nat \<Rightarrow> nat option \<Rightarrow> nat option \<Rightarrow> nat \<Rightarrow> Match" where
  "example_row home away hg ag hth hta t =
     \<lparr>home_team = home, away_team = away,
      full_time_home_goals = hg, full_time_away_goals = ag,
      half_time_home_goals = hth, half_time_away_goals = hta,
      result_computed = (if hg > ag then ''H'' else if hg = ag then ''D'' else ''A''),
      btts_computed = (hg > 0 \<and> ag > 0),
      comeback_computed =
        ((or_zero hth < or_zero hta \<and> hg \<ge> ag) \<or> (or_zero hta < or_zero hth \<and> ag \<ge> hg)),
      match_time = t\<rparr>"

definition example_three :: "Match list" where
  "example_three =
     [example_row ''Arsenal'' ''Chelsea'' 1 0 None None 3,
      example_row ''Chelsea'' ''Arsenal'' 1 1 (Some 1) (Some 0) 2,
      example_row ''Arsenal'' ''Chelsea'' 0 2 (Some 0) (Some 1) 1]"

text \<open>Seven matches with the scorelines 1-0, 2-1, 1-0, 0-0, 2-1, 3-3, 1-1 in this order.\<close>

definition example_seven :: "Match list" where
  "example_seven =
     [example_row ''Arsenal'' ''Chelsea'' 1 0 None None 7,
      example_row ''Chelsea'' ''Arsenal'' 2 1 (Some 1) (Some 0) 6,
      example_row ''Arsenal'' ''Chelsea'' 1 0 (Some 0) (Some 0) 5,
      example_row ''Chelsea'' ''Arsenal'' 0 0 None None 4,
      example_row ''Arsenal'' ''Chelsea'' 2 1 (Some 0) (Some 1) 3,
      example_row ''Chelsea'' ''Arsenal'' 3 3 (Some 2) (Some 3) 2,
      example_row ''Arsenal'' ''Chelsea'' 1 1 (Some 1) None 1]"

text \<open>
  A team with five home wins long ago and one recent away defeat; each list is in the
  order of its query, most recent first.
\<close>

definition example_home_rows :: "Match list" where
  "example_home_rows =
     [example_row ''Arsenal'' ''Chelsea'' 2 0 None None 5,
      example_row ''Arsenal'' ''Everton'' 1 0 None None 4,
      example_row ''Arsenal'' ''Fulham'' 3 1 None None 3,
      example_row ''Arsenal'' ''Chelsea'' 1 0 None None 2,
      example_row ''Arsenal'' ''Everton'' 2 1 None None 1]"

definition example_away_rows :: "Match list" where
  "example_away_rows = [example_row ''Chelsea'' ''Arsenal'' 3 0 None None 10]"

text \<open>
  A database that knows the rows above, has no row between any two teams, and whose
  queries reject for the team \<open>Nowhere\<close>.
\<close>

definition example_db :: Database where
  "example_db =
     \<lparr>home_query = (\<lambda>team. if team = ''Nowhere'' then Inl NonError
                           else if team = ''Arsenal'' then Inr (Some example_home_rows)
                           else Inr (Some [])),
      away_query = (\<lambda>team. if team = ''Nowhere'' then Inl NonError
                           else if team = ''Arsenal'' then Inr (Some example_away_rows)
                           else Inr None),
      h2h_query = (\<lambda>home away. if home = ''Nowhere'' \<or> away = ''Nowhere'' then Inl NonError
                                else Inr (Some []))\<rparr>"

definition example_input :: "string \<Rightarrow> string \<Rightarrow> PredictionInput" where
  "example_input home away =
     \<lparr>input_home_team = home, input_away_team = away, halftime_home_goals = None,
      halftime_away_goals = None, match_context = None\<rparr>"

definition example_state :: HookState where
  "example_state = \<lparr>isLoading = False, state_prediction = None, state_error = None, toasts = []\<rparr>"



section \<open>Invariant of the half-time loop\<close>

definition ht_invariant :: "HalfTimeCounters \<Rightarrow> nat \<Rightarrow> bool" where
  "ht_invariant c n \<longleftrightarrow>
     htHomeLeads c + htAwayLeads c + htDraws c = n
     \<and> htHomeLeadToWin c + htHomeLeadToDraw c + htHomeLeadToLoss c = htHomeLeads c
     \<and> htAwayLeadToWin c + htAwayLeadToDraw c + htAwayLeadToLoss c = htAwayLeads c"

section \<open>Reference notions for the frequent-results ranking\<close>



section \<open>Lemmas on numbers and sorting\<close>

lemma js_div_Some: "b \<noteq> 0 \<Longrightarrow> js_div a b = Some (a / b)"
  by (simp add: js_div_def)

lemma percentage_of_Some:
  "n \<noteq> 0 \<Longrightarrow> percentage_of c n = Some (toFixed 1 (of_nat c / of_nat n * 100))"
  by (simp add: percentage_of_def js_div_def)




lemma set_js_insert: "set (js_insert cmp x ys) = insert x (set ys)"
  by (induction ys) auto

lemma set_js_sort: "set (js_sort cmp xs) = set xs"
  by (induction xs) (simp_all add: js_sort_def set_js_insert)

section \<open>Basic statistics\<close>

lemma calculateBasicStats_Nil:
  "calculateBasicStats [] =
     \<lparr>total_matches = 0, home_wins = 0, draws = 0, away_wins = 0, btts_count = 0,
      comeback_count = 0, avg_goals = Some 0, home_win_percentage = Some 0,
      draw_percentage = Some 0, away_win_percentage = Some 0, btts_percentage = Some 0,
      comeback_percentage = Some 0\<rparr>"
  by (simp add: calculateBasicStats_def)






section \<open>The half-time analysis\<close>

lemma ht_step_invariant: "ht_invariant c n \<Longrightarrow> ht_invariant (ht_step c m) (Suc n)"
  by (simp add: ht_invariant_def ht_step_def Let_def)

lemma foldl_ht_step_invariant:
  "ht_invariant c n \<Longrightarrow> ht_invariant (foldl ht_step c ms) (n + length ms)"
proof (induction ms arbitrary: c n)
  case Nil
  then show ?case by simp
next
  case (Cons m ms)
  from Cons.IH [OF ht_step_invariant [OF Cons.prems], of m]
  show ?case by simp
qed

lemma halfTime_loop_invariant: "ht_invariant (halfTime_loop ms) (length ms)"
  using foldl_ht_step_invariant [of zero_counters 0 ms]
  by (simp add: halfTime_loop_def ht_invariant_def zero_counters_def)

lemma halfTime_loop_Nil: "halfTime_loop [] = zero_counters"
  by (simp add: halfTime_loop_def)

text \<open>The half-time block of the result, for every input, the empty one included.\<close>

lemma halfTimeAnalysis_eq:
  "halfTimeAnalysis (calculateDetailedStats matches) =
     (let c = halfTime_loop matches in
      \<lparr>ht_home_leads = htHomeLeads c, ht_away_leads = htAwayLeads c,
       ht_draws = htDraws c,
       ht_home_lead_to_win = htHomeLeadToWin c,
       ht_home_lead_to_draw = htHomeLeadToDraw c,
       ht_home_lead_to_loss = htHomeLeadToLoss c,
       ht_away_lead_to_win = htAwayLeadToWin c,
       ht_away_lead_to_draw = htAwayLeadToDraw c,
       ht_away_lead_to_loss = htAwayLeadToLoss c,
       home_lead_hold_percentage =
         (if htHomeLeads c > 0 then percentage_of (htHomeLeadToWin c) (htHomeLeads c)
          else Some 0),
       away_lead_hold_percentage =
         (if htAwayLeads c > 0 then percentage_of (htAwayLeadToWin c) (htAwayLeads c)
          else Some 0)\<rparr>)"
  by (cases "matches = []")
     (simp_all add: calculateDetailedStats_def Let_def halfTime_loop_Nil zero_counters_def)

text \<open>
  Claim C10. The half-time analysis partitions the matches: the three half-time states
  add up to the number of matches, and the three full-time outcomes of each lead add up
  to the number of those leads.
\<close>

theorem half_time_counts_partition:
  "ht_home_leads (halfTimeAnalysis (calculateDetailedStats matches))
     + ht_away_leads (halfTimeAnalysis (calculateDetailedStats matches))
     + ht_draws (halfTimeAnalysis (calculateDetailedStats matches)) = length matches
   \<and> ht_home_lead_to_win (halfTimeAnalysis (calculateDetailedStats matches))
     + ht_home_lead_to_draw (halfTimeAnalysis (calculateDetailedStats matches))
     + ht_home_lead_to_loss (halfTimeAnalysis (calculateDetailedStats matches))
     = ht_home_leads (halfTimeAnalysis (calculateDetailedStats matches))
   \<and> ht_away_lead_to_win (halfTimeAnalysis (calculateDetailedStats matches))
     + ht_away_lead_to_draw (halfTimeAnalysis (calculateDetailedStats matches))
     + ht_away_lead_to_loss (halfTimeAnalysis (calculateDetailedStats matches))
     = ht_away_leads (halfTimeAnalysis (calculateDetailedStats matches))"
  using halfTime_loop_invariant [of matches]
  by (simp add: halfTimeAnalysis_eq Let_def ht_invariant_def)


section \<open>Totality and the empty input\<close>

lemma basic_finite:
  "avg_goals (calculateBasicStats matches) \<noteq> None
   \<and> home_win_percentage (calculateBasicStats matches) \<noteq> None
   \<and> draw_percentage (calculateBasicStats matches) \<noteq> None
   \<and> away_win_percentage (calculateBasicStats matches) \<noteq> None
   \<and> btts_percentage (calculateBasicStats matches) \<noteq> None
   \<and> comeback_percentage (calculateBasicStats matches) \<noteq> None"
  by (cases "matches = []")
     (simp_all add: calculateBasicStats_def Let_def percentage_of_Some js_div_Some)

lemma goalStats_finite:
  "home_goals_per_match (goalStats (calculateDetailedStats matches)) \<noteq> None
   \<and> away_goals_per_match (goalStats (calculateDetailedStats matches)) \<noteq> None
   \<and> home_clean_sheet_percentage (goalStats (calculateDetailedStats matches)) \<noteq> None
   \<and> away_clean_sheet_percentage (goalStats (calculateDetailedStats matches)) \<noteq> None"
  by (cases "matches = []")
     (simp_all add: calculateDetailedStats_def Let_def percentage_of_Some js_div_Some)

lemma overUnder_finite:
  "over_25_percentage (overUnder (calculateDetailedStats matches)) \<noteq> None
   \<and> under_25_percentage (overUnder (calculateDetailedStats matches)) \<noteq> None
   \<and> over_35_percentage (overUnder (calculateDetailedStats matches)) \<noteq> None"
  by (cases "matches = []")
     (simp_all add: calculateDetailedStats_def Let_def percentage_of_Some js_div_Some)

lemma halfTime_finite:
  "home_lead_hold_percentage (halfTimeAnalysis (calculateDetailedStats matches)) \<noteq> None
   \<and> away_lead_hold_percentage (halfTimeAnalysis (calculateDetailedStats matches)) \<noteq> None"
  by (simp add: halfTimeAnalysis_eq Let_def percentage_of_Some)

lemma frequentResults_eq:
  "frequentResults (calculateDetailedStats matches) = frequentResults_of matches"
  by (cases "matches = []")
     (simp_all add: calculateDetailedStats_def Let_def frequentResults_of_def
        resultFrequency_of_def js_sort_def)

lemma frequentResults_finite:
  "list_all (\<lambda>e. percentage e \<noteq> None) (frequentResults (calculateDetailedStats matches))"
proof (cases "matches = []")
  case True
  then show ?thesis by (simp add: calculateDetailedStats_def)
next
  case False
  have "percentage e \<noteq> None" if "e \<in> set (frequentResults_of matches)" for e
  proof -
    from that have "e \<in> set (map (\<lambda>(result', count').
                  \<lparr>result = result', count = count',
                   percentage = percentage_of count' (length matches)\<rparr>)
             (resultFrequency_of matches))"
      unfolding frequentResults_of_def using set_js_sort in_set_takeD by fastforce
    with False show ?thesis
      by (auto simp: percentage_of_Some)
  qed
  then show ?thesis
    by (simp add: frequentResults_eq list_all_iff)
qed

text \<open>
  Claim C2. On the empty match list \<open>calculateBasicStats\<close> and \<open>calculateDetailedStats\<close>
  return the all-zero structures, with an empty frequent-results list. Both functions
  have no failing branch, and on every input every average and percentage they return is
  a finite number: no division by zero is reached.
\<close>

theorem empty_input_all_zero:
  "calculateBasicStats [] =
     \<lparr>total_matches = 0, home_wins = 0, draws = 0, away_wins = 0, btts_count = 0,
      comeback_count = 0, avg_goals = Some 0, home_win_percentage = Some 0,
      draw_percentage = Some 0, away_win_percentage = Some 0, btts_percentage = Some 0,
      comeback_percentage = Some 0\<rparr>
   \<and> calculateDetailedStats [] =
     \<lparr>basic = calculateBasicStats [],
      goalStats =
        \<lparr>home_goals_total = 0, away_goals_total = 0, home_goals_per_match = Some 0,
         away_goals_per_match = Some 0, home_clean_sheets = 0, away_clean_sheets = 0,
         home_clean_sheet_percentage = Some 0, away_clean_sheet_percentage = Some 0\<rparr>,
      overUnder =
        \<lparr>over_25_count = 0, under_25_count = 0, over_25_percentage = Some 0,
         under_25_percentage = Some 0, over_35_count = 0, over_35_percentage = Some 0\<rparr>,
      frequentResults = [],
      halfTimeAnalysis =
        \<lparr>ht_home_leads = 0, ht_away_leads = 0, ht_draws = 0,
         ht_home_lead_to_win = 0, ht_home_lead_to_draw = 0, ht_home_lead_to_loss = 0,
         ht_away_lead_to_win = 0, ht_away_lead_to_draw = 0, ht_away_lead_to_loss = 0,
         home_lead_hold_percentage = Some 0, away_lead_hold_percentage = Some 0\<rparr>\<rparr>
   \<and> avg_goals (calculateBasicStats matches) \<noteq> None
   \<and> home_win_percentage (calculateBasicStats matches) \<noteq> None
   \<and> draw_percentage (calculateBasicStats matches) \<noteq> None
   \<and> away_win_percentage (calculateBasicStats matches) \<noteq> None
   \<and> btts_percentage (calculateBasicStats matches) \<noteq> None
   \<and> comeback_percentage (calculateBasicStats matches) \<noteq> None
   \<and> basic (calculateDetailedStats matches) = calculateBasicStats matches
   \<and> home_goals_per_match (goalStats (calculateDetailedStats matches)) \<noteq> None
   \<and> away_goals_per_match (goalStats (calculateDetailedStats matches)) \<noteq> None
   \<and> home_clean_sheet_percentage (goalStats (calculateDetailedStats matches)) \<noteq> None
   \<and> away_clean_sheet_percentage (goalStats (calculateDetailedStats matches)) \<noteq> None
   \<and> over_25_percentage (overUnder (calculateDetailedStats matches)) \<noteq> None
   \<and> under_25_percentage (overUnder (calculateDetailedStats matches)) \<noteq> None
   \<and> over_35_percentage (overUnder (calculateDetailedStats matches)) \<noteq> None
   \<and> list_all (\<lambda>e. percentage e \<noteq> None) (frequentResults (calculateDetailedStats matches))
   \<and> home_lead_hold_percentage (halfTimeAnalysis (calculateDetailedStats matches)) \<noteq> None
   \<and> away_lead_hold_percentage (halfTimeAnalysis (calculateDetailedStats matches)) \<noteq> None"
proof -
  have "calculateDetailedStats [] =
     \<lparr>basic = calculateBasicStats [],
      goalStats =
        \<lparr>home_goals_total = 0, away_goals_total = 0, home_goals_per_match = Some 0,
         away_goals_per_match = Some 0, home_clean_sheets = 0, away_clean_sheets = 0,
         home_clean_sheet_percentage = Some 0, away_clean_sheet_percentage = Some 0\<rparr>,
      overUnder =
        \<lparr>over_25_count = 0, under_25_count = 0, over_25_percentage = Some 0,
         under_25_percentage = Some 0, over_35_count = 0, over_35_percentage = Some 0\<rparr>,
      frequentResults = [],
      halfTimeAnalysis =
        \<lparr>ht_home_leads = 0, ht_away_leads = 0, ht_draws = 0,
         ht_home_lead_to_win = 0, ht_home_lead_to_draw = 0, ht_home_lead_to_loss = 0,
         ht_away_lead_to_win = 0, ht_away_lead_to_draw = 0, ht_away_lead_to_loss = 0,
         home_lead_hold_percentage = Some 0, away_lead_hold_percentage = Some 0\<rparr>\<rparr>"
    by (simp add: calculateDetailedStats_def)
  moreover have "basic (calculateDetailedStats matches) = calculateBasicStats matches"
    by (simp add: calculateDetailedStats_def Let_def)
  ultimately show ?thesis
    using calculateBasicStats_Nil basic_finite [of matches] goalStats_finite [of matches]
      overUnder_finite [of matches] halfTime_finite [of matches]
      frequentResults_finite [of matches]
    by (simp only: simp_thms)
qed

section \<open>Frequent results\<close>



















lemma length_js_insert: "length (js_insert cmp x ys) = Suc (length ys)"
  by (induction ys) auto

lemma length_js_sort: "length (js_sort cmp xs) = length xs"
  by (induction xs) (simp_all add: js_sort_def length_js_insert)






section \<open>Null half-time goals\<close>

lemma halfTime_loop_split:
  "halfTime_loop (pre @ m # post) = foldl ht_step (ht_step (foldl ht_step zero_counters pre) m) post"
  by (simp add: halfTime_loop_def)

lemma ht_step_null_is_zero:
  "ht_step c (m\<lparr>half_time_home_goals := None, half_time_away_goals := None\<rparr>) =
   ht_step c (m\<lparr>half_time_home_goals := Some 0, half_time_away_goals := Some 0\<rparr>)"
  by (simp add: ht_step_def or_zero_def)

lemma htDraws_foldl:
  "htDraws (foldl ht_step c ms) =
     htDraws c + length (filter (\<lambda>m. or_zero (half_time_home_goals m) = or_zero (half_time_away_goals m)) ms)"
proof (induction ms arbitrary: c)
  case Nil
  then show ?case by simp
next
  case (Cons m ms)
  have "htDraws (ht_step c m) =
          htDraws c + (if or_zero (half_time_home_goals m) = or_zero (half_time_away_goals m) then 1 else 0)"
    by (simp add: ht_step_def Let_def)
  then show ?case
    by (simp add: Cons.IH)
qed

lemma scoreline_half_time_update [simp]:
  "scoreline (m\<lparr>half_time_home_goals := x, half_time_away_goals := y\<rparr>) = scoreline m"
  by (simp add: scoreline_def)

lemma basic_ignores_half_time:
  "calculateBasicStats (map (\<lambda>m. m\<lparr>half_time_home_goals := f m, half_time_away_goals := g m\<rparr>) ms)
     = calculateBasicStats ms"
  by (simp add: calculateBasicStats_def Let_def filter_map o_def foldl_map)

lemma frequent_ignores_half_time:
  "frequentResults_of (map (\<lambda>m. m\<lparr>half_time_home_goals := f m, half_time_away_goals := g m\<rparr>) ms)
     = frequentResults_of ms"
  by (simp add: frequentResults_of_def resultFrequency_of_def foldl_map)

lemma goalStats_ignores_half_time:
  "goalStats (calculateDetailedStats
      (map (\<lambda>m. m\<lparr>half_time_home_goals := f m, half_time_away_goals := g m\<rparr>) ms))
     = goalStats (calculateDetailedStats ms)"
  by (simp add: calculateDetailedStats_def Let_def filter_map o_def foldl_map)

lemma overUnder_ignores_half_time:
  "overUnder (calculateDetailedStats
      (map (\<lambda>m. m\<lparr>half_time_home_goals := f m, half_time_away_goals := g m\<rparr>) ms))
     = overUnder (calculateDetailedStats ms)"
  by (simp add: calculateDetailedStats_def Let_def filter_map o_def foldl_map)

lemma basic_of_detailed: "basic (calculateDetailedStats ms) = calculateBasicStats ms"
  by (simp add: calculateDetailedStats_def Let_def)

text \<open>
  Claim C8. A match whose two half-time goal fields are null is analysed exactly as a
  match that was 0-0 at half-time, and is counted under \<open>ht_draws\<close>: \<open>ht_draws\<close> is the
  number of matches whose half-time goals, null read as 0, are level. The half-time
  fields, null or not, do not enter the basic statistics, the goal statistics, the
  over/under statistics or the frequent results, which come from the full-time goals.
\<close>

theorem null_half_time_goals_read_as_zero:
  "halfTimeAnalysis (calculateDetailedStats
      (pre @ m\<lparr>half_time_home_goals := None, half_time_away_goals := None\<rparr> # post))
   = halfTimeAnalysis (calculateDetailedStats
      (pre @ m\<lparr>half_time_home_goals := Some 0, half_time_away_goals := Some 0\<rparr> # post))
   \<and> ht_draws (halfTimeAnalysis (calculateDetailedStats matches))
     = length (filter (\<lambda>m. or_zero (half_time_home_goals m) = or_zero (half_time_away_goals m))
         matches)
   \<and> length (filter (\<lambda>m. half_time_home_goals m = None \<and> half_time_away_goals m = None) matches)
     \<le> ht_draws (halfTimeAnalysis (calculateDetailedStats matches))
   \<and> basic (calculateDetailedStats
        (map (\<lambda>m. m\<lparr>half_time_home_goals := f m, half_time_away_goals := g m\<rparr>) matches))
     = basic (calculateDetailedStats matches)
   \<and> goalStats (calculateDetailedStats
        (map (\<lambda>m. m\<lparr>half_time_home_goals := f m, half_time_away_goals := g m\<rparr>) matches))
     = goalStats (calculateDetailedStats matches)
   \<and> overUnder (calculateDetailedStats
        (map (\<lambda>m. m\<lparr>half_time_home_goals := f m, half_time_away_goals := g m\<rparr>) matches))
     = overUnder (calculateDetailedStats matches)
   \<and> frequentResults (calculateDetailedStats
        (map (\<lambda>m. m\<lparr>half_time_home_goals := f m, half_time_away_goals := g m\<rparr>) matches))
     = frequentResults (calculateDetailedStats matches)"
proof -
  have a: "halfTimeAnalysis (calculateDetailedStats
      (pre @ m\<lparr>half_time_home_goals := None, half_time_away_goals := None\<rparr> # post))
   = halfTimeAnalysis (calculateDetailedStats
      (pre @ m\<lparr>half_time_home_goals := Some 0, half_time_away_goals := Some 0\<rparr> # post))"
    by (simp only: halfTimeAnalysis_eq halfTime_loop_split ht_step_null_is_zero)
  have b: "ht_draws (halfTimeAnalysis (calculateDetailedStats matches))
     = length (filter (\<lambda>m. or_zero (half_time_home_goals m) = or_zero (half_time_away_goals m))
         matches)"
    by (simp add: halfTimeAnalysis_eq Let_def halfTime_loop_def htDraws_foldl zero_counters_def)
  have "length (filter (\<lambda>m. half_time_home_goals m = None \<and> half_time_away_goals m = None) matches)
     \<le> length (filter (\<lambda>m. or_zero (half_time_home_goals m) = or_zero (half_time_away_goals m))
         matches)"
    by (induction matches) (auto simp: or_zero_def)
  with b have c: "length (filter (\<lambda>m. half_time_home_goals m = None \<and> half_time_away_goals m = None) matches)
     \<le> ht_draws (halfTimeAnalysis (calculateDetailedStats matches))"
    by simp
  from a b c show ?thesis
    by (simp only: basic_of_detailed basic_ignores_half_time goalStats_ignores_half_time
          overUnder_ignores_half_time frequentResults_eq frequent_ignores_half_time simp_thms)
qed

section \<open>The prediction engine\<close>

text \<open>
  Claim C4. When the head-to-head query answers with no rows, \<open>getHeadToHeadFeatures\<close>
  returns normally, with zero for the other fields and exactly the default transition
  matrix: home-lead row (0.65, 0.25, 0.10), draw row (0.35, 0.30, 0.35), away-lead row
  (0.10, 0.25, 0.65).
\<close>

theorem no_head_to_head_history_default_matrix:
  assumes "h2h_query db homeTeam awayTeam = Inr answer"
    and "data_or_empty answer = []"
  shows "getHeadToHeadFeatures db homeTeam awayTeam =
           Inr \<lparr>h2h_matches_played = 0, home_advantage = Some 0, h2h_avg_goals = Some 0,
                btts_rate = Some 0,
                transition_matrix =
                  \<lparr>ht_h_to_ft_h = 65 / 100, ht_h_to_ft_d = 25 / 100, ht_h_to_ft_a = 10 / 100,
                   ht_d_to_ft_h = 35 / 100, ht_d_to_ft_d = 30 / 100, ht_d_to_ft_a = 35 / 100,
                   ht_a_to_ft_h = 10 / 100, ht_a_to_ft_d = 25 / 100, ht_a_to_ft_a = 65 / 100\<rparr>\<rparr>"
  using assms
  by (simp add: getHeadToHeadFeatures_def getDefaultTransitionMatrix_def data_or_empty_def
        split: option.splits)

theorem no_head_to_head_history_default_matrix_witness:
  "h2h_query example_db ''Arsenal'' ''Chelsea'' = Inr (Some [])
   \<and> data_or_empty (Some []) = []
   \<and> getHeadToHeadFeatures example_db ''Arsenal'' ''Chelsea'' =
           Inr \<lparr>h2h_matches_played = 0, home_advantage = Some 0, h2h_avg_goals = Some 0,
                btts_rate = Some 0,
                transition_matrix =
                  \<lparr>ht_h_to_ft_h = 65 / 100, ht_h_to_ft_d = 25 / 100, ht_h_to_ft_a = 10 / 100,
                   ht_d_to_ft_h = 35 / 100, ht_d_to_ft_d = 30 / 100, ht_d_to_ft_a = 35 / 100,
                   ht_a_to_ft_h = 10 / 100, ht_a_to_ft_d = 25 / 100, ht_a_to_ft_a = 65 / 100\<rparr>\<rparr>"
proof -
  have q: "h2h_query example_db ''Arsenal'' ''Chelsea'' = Inr (Some [])"
    by (simp add: example_db_def)
  have e: "data_or_empty (Some []) = []"
    by (simp add: data_or_empty_def)
  from q e no_head_to_head_history_default_matrix [OF q e] show ?thesis
    by simp
qed



lemma predict_example:
  "\<exists>out. predict example_db ''2024-01-01'' (example_input ''Arsenal'' ''Chelsea'') = Inr out"
  by (simp add: predict_def prepareFeatures_def getTeamFeatures_def getHeadToHeadFeatures_def
       example_db_def example_input_def Let_def)




section \<open>Batch prediction\<close>

lemma promise_all_map_Inr: "promise_all (map Inr vs) = Inr vs"
  by (induction vs) simp_all

lemma promise_all_Inr_D: "promise_all ps = Inr vs \<Longrightarrow> ps = map Inr vs"
  by (induction ps arbitrary: vs) (auto split: sum.splits)

lemma promise_all_Inr_iff: "promise_all ps = Inr vs \<longleftrightarrow> ps = map Inr vs"
  using promise_all_map_Inr promise_all_Inr_D by blast

lemma promise_all_fulfilled:
  assumes "\<forall>p\<in>set ps. \<exists>v. p = Inr v"
  shows "\<exists>vs. promise_all ps = Inr vs"
  using assms by (induction ps) (auto split: sum.splits)

lemma promise_all_rejected:
  assumes "\<exists>p\<in>set ps. \<exists>e. p = Inl e"
  shows "\<exists>e. promise_all ps = Inl e \<and> Inl e \<in> set ps"
  using assms
proof (induction ps)
  case Nil
  then show ?case by simp
next
  case (Cons p ps)
  show ?case
  proof (cases p)
    case (Inl e)
    then show ?thesis by simp
  next
    case (Inr v)
    with Cons.prems have "\<exists>p\<in>set ps. \<exists>e. p = Inl e"
      by auto
    from Cons.IH [OF this] obtain e where "promise_all ps = Inl e" "Inl e \<in> set ps"
      by blast
    with Inr show ?thesis by simp
  qed
qed

lemma predict_Inl:
  "predict db now input = Inl e \<Longrightarrow> e = Error ''Predikcios hiba tortent''"
  by (auto simp: predict_def Let_def split: sum.splits)

text \<open>
  Claim C5, as the code has it. When the prediction of every input succeeds,
  \<open>predictBatch\<close> returns the predictions one-to-one with the inputs and in their order.
  When the prediction of some input fails, the whole batch returns the empty list and the
  error message of the failure is stored in the hook state; the results of the other
  inputs are dropped. Loading is off at the end in both cases.
\<close>

theorem predictBatch_all_or_nothing:
  "((\<forall>input\<in>set inputs. \<exists>out. predict db now input = Inr out) \<longrightarrow>
       map Inr (fst (predictBatch db now inputs st)) = map (predict db now) inputs
     \<and> length (fst (predictBatch db now inputs st)) = length inputs
     \<and> state_error (snd (predictBatch db now inputs st)) = None)
   \<and> ((\<exists>input\<in>set inputs. \<exists>e. predict db now input = Inl e) \<longrightarrow>
       fst (predictBatch db now inputs st) = []
     \<and> state_error (snd (predictBatch db now inputs st)) = Some ''Predikcios hiba tortent'')
   \<and> isLoading (snd (predictBatch db now inputs st)) = False"
proof (intro conjI impI)
  assume "\<forall>input\<in>set inputs. \<exists>out. predict db now input = Inr out"
  then obtain outs where outs: "promise_all (map (predict db now) inputs) = Inr outs"
    using promise_all_fulfilled [of "map (predict db now) inputs"] by auto
  then have eq: "map (predict db now) inputs = map Inr outs"
    by (simp add: promise_all_Inr_iff)
  from outs have res: "fst (predictBatch db now inputs st) = outs"
    and err: "state_error (snd (predictBatch db now inputs st)) = None"
    by (simp_all add: predictBatch_def Let_def)
  from res eq show "map Inr (fst (predictBatch db now inputs st)) = map (predict db now) inputs"
    by simp
  from res eq show "length (fst (predictBatch db now inputs st)) = length inputs"
    by (metis length_map)
  from err show "state_error (snd (predictBatch db now inputs st)) = None" .
next
  assume "\<exists>input\<in>set inputs. \<exists>e. predict db now input = Inl e"
  then obtain e where e: "promise_all (map (predict db now) inputs) = Inl e"
      and "Inl e \<in> set (map (predict db now) inputs)"
    using promise_all_rejected [of "map (predict db now) inputs"] by auto
  then have "e = Error ''Predikcios hiba tortent''"
    using predict_Inl by fastforce
  with e show "fst (predictBatch db now inputs st) = []"
    and "state_error (snd (predictBatch db now inputs st)) = Some ''Predikcios hiba tortent''"
    by (simp_all add: predictBatch_def Let_def)
next
  show "isLoading (snd (predictBatch db now inputs st)) = False"
    by (simp add: predictBatch_def Let_def split: sum.splits)
qed

lemma predict_example_rejected:
  "predict example_db ''2024-01-01'' (example_input ''Nowhere'' ''Chelsea'') =
     Inl (Error ''Predikcios hiba tortent'')"
  by (simp add: predict_def prepareFeatures_def getTeamFeatures_def example_db_def
        example_input_def)

lemma predict_example2:
  "\<exists>out. predict example_db ''2024-01-01'' (example_input ''Chelsea'' ''Arsenal'') = Inr out"
  by (simp add: predict_def prepareFeatures_def getTeamFeatures_def getHeadToHeadFeatures_def
       example_db_def example_input_def Let_def)

theorem predictBatch_all_or_nothing_witness:
  "(list_all (\<lambda>input. \<exists>out. predict example_db ''2024-01-01'' input = Inr out)
       [example_input ''Arsenal'' ''Chelsea'', example_input ''Chelsea'' ''Arsenal'']
    \<and> map Inr (fst (predictBatch example_db ''2024-01-01''
         [example_input ''Arsenal'' ''Chelsea'', example_input ''Chelsea'' ''Arsenal''] example_state))
      = map (predict example_db ''2024-01-01'')
         [example_input ''Arsenal'' ''Chelsea'', example_input ''Chelsea'' ''Arsenal''])
   \<and> (list_ex (\<lambda>input. \<exists>e. predict example_db ''2024-01-01'' input = Inl e)
       [example_input ''Arsenal'' ''Chelsea'', example_input ''Nowhere'' ''Chelsea'']
    \<and> fst (predictBatch example_db ''2024-01-01''
         [example_input ''Arsenal'' ''Chelsea'', example_input ''Nowhere'' ''Chelsea''] example_state) = [])"
proof -
  have ok: "\<forall>input\<in>set [example_input ''Arsenal'' ''Chelsea'', example_input ''Chelsea'' ''Arsenal''].
              \<exists>out. predict example_db ''2024-01-01'' input = Inr out"
    using predict_example predict_example2 by simp
  have bad: "\<exists>input\<in>set [example_input ''Arsenal'' ''Chelsea'', example_input ''Nowhere'' ''Chelsea''].
              \<exists>e. predict example_db ''2024-01-01'' input = Inl e"
    using predict_example_rejected by simp
  from ok bad
    predictBatch_all_or_nothing [of "[example_input ''Arsenal'' ''Chelsea'', example_input ''Chelsea'' ''Arsenal'']"
      example_db "''2024-01-01''" example_state]
    predictBatch_all_or_nothing [of "[example_input ''Arsenal'' ''Chelsea'', example_input ''Nowhere'' ''Chelsea'']"
      example_db "''2024-01-01''" example_state]
  show ?thesis
    unfolding list_all_iff list_ex_iff by blast
qed

text \<open>
  The claim as stated fails: in a batch of three inputs of which the second fails and the
  other two succeed on their own, the result is the empty list, not three entries with a
  failure marker in the second place.
\<close>

theorem predictBatch_aborts_counterexample:
  "(\<exists>out. predict example_db ''2024-01-01'' (example_input ''Arsenal'' ''Chelsea'') = Inr out)
   \<and> predict example_db ''2024-01-01'' (example_input ''Nowhere'' ''Chelsea'') =
       Inl (Error ''Predikcios hiba tortent'')
   \<and> (\<exists>out. predict example_db ''2024-01-01'' (example_input ''Chelsea'' ''Arsenal'') = Inr out)
   \<and> fst (predictBatch example_db ''2024-01-01''
        [example_input ''Arsenal'' ''Chelsea'', example_input ''Nowhere'' ''Chelsea'',
         example_input ''Chelsea'' ''Arsenal''] example_state) = []"
proof -
  have "promise_all (map (predict example_db ''2024-01-01'')
          [example_input ''Arsenal'' ''Chelsea'', example_input ''Nowhere'' ''Chelsea'',
           example_input ''Chelsea'' ''Arsenal'']) = Inl (Error ''Predikcios hiba tortent'')"
    using predict_example predict_example2 predict_example_rejected by auto
  then have "fst (predictBatch example_db ''2024-01-01''
        [example_input ''Arsenal'' ''Chelsea'', example_input ''Nowhere'' ''Chelsea'',
         example_input ''Chelsea'' ''Arsenal''] example_state) = []"
    by (simp add: predictBatch_def Let_def)
  then show ?thesis
    using predict_example predict_example2 predict_example_rejected by simp
qed

section \<open>Form arrays\<close>

lemma form_features_of:
  "form_features (teamFeatures_of now teamName homeData awayData) =
     \<lparr>recent_form_home =
        map (\<lambda>m. if result_computed m = ''H'' then 1
                  else if result_computed m = ''D'' then 1 / 2 else 0) (take 5 homeData),
      recent_form_away =
        map (\<lambda>m. if result_computed m = ''A'' then 1
                  else if result_computed m = ''D'' then 1 / 2 else 0) (take 5 awayData),
      recent_form_overall =
        take 5 (map (\<lambda>m. if result_computed m = ''H'' then 1
                  else if result_computed m = ''D'' then 1 / 2 else 0) (take 5 homeData)
             @ map (\<lambda>m. if result_computed m = ''A'' then 1
                  else if result_computed m = ''D'' then 1 / 2 else 0) (take 5 awayData)),
      current_streak = calculateStreak (homeData @ awayData) teamName,
      streak_type = getStreakType (homeData @ awayData) teamName,
      momentum_score = calculateMomentum (homeData @ awayData) teamName\<rparr>"
  by (simp add: teamFeatures_of_def Let_def)

lemma getTeamFeatures_Inr:
  assumes "home_query db teamName = Inr homeMatches"
    and "away_query db teamName = Inr awayMatches"
  shows "getTeamFeatures db now teamName =
           Inr (teamFeatures_of now teamName (data_or_empty homeMatches) (data_or_empty awayMatches))"
  using assms by (simp add: getTeamFeatures_def)

text \<open>
  The form arrays as the code computes them: each has at most five entries, each entry is
  0, 0.5 or 1, each split array encodes the first five rows of its query answer, and the
  overall array is the first five entries of the home array followed by the away array.
\<close>

lemma form_arrays:
  assumes "home_query db teamName = Inr homeMatches"
    and "away_query db teamName = Inr awayMatches"
  shows "\<exists>tf. getTeamFeatures db now teamName = Inr tf
     \<and> recent_form_home (form_features tf) =
         map (\<lambda>m. if result_computed m = ''H'' then 1
                   else if result_computed m = ''D'' then 1 / 2 else 0)
           (take 5 (data_or_empty homeMatches))
     \<and> recent_form_away (form_features tf) =
         map (\<lambda>m. if result_computed m = ''A'' then 1
                   else if result_computed m = ''D'' then 1 / 2 else 0)
           (take 5 (data_or_empty awayMatches))
     \<and> recent_form_overall (form_features tf) =
         take 5 (recent_form_home (form_features tf) @ recent_form_away (form_features tf))
     \<and> length (recent_form_home (form_features tf)) \<le> 5
     \<and> length (recent_form_away (form_features tf)) \<le> 5
     \<and> length (recent_form_overall (form_features tf)) \<le> 5
     \<and> set (recent_form_home (form_features tf)) \<subseteq> {0, 1 / 2, 1}
     \<and> set (recent_form_away (form_features tf)) \<subseteq> {0, 1 / 2, 1}
     \<and> set (recent_form_overall (form_features tf)) \<subseteq> {0, 1 / 2, 1}"
proof -
  let ?tf = "teamFeatures_of now teamName (data_or_empty homeMatches) (data_or_empty awayMatches)"
  have home: "set (recent_form_home (form_features ?tf)) \<subseteq> {0, 1 / 2, 1}"
    and away: "set (recent_form_away (form_features ?tf)) \<subseteq> {0, 1 / 2, 1}"
    by (auto simp: form_features_of)
  have overall: "recent_form_overall (form_features ?tf) =
         take 5 (recent_form_home (form_features ?tf) @ recent_form_away (form_features ?tf))"
    by (simp add: form_features_of)
  have "set (recent_form_overall (form_features ?tf)) \<subseteq>
          set (recent_form_home (form_features ?tf)) \<union> set (recent_form_away (form_features ?tf))"
    unfolding overall using set_take_subset [of 5] by fastforce
  with home away have sub: "set (recent_form_overall (form_features ?tf)) \<subseteq> {0, 1 / 2, 1}"
    by blast
  have "length (recent_form_overall (form_features ?tf)) \<le> 5"
    unfolding overall by simp
  with home away sub overall show ?thesis
    by (intro exI [of _ ?tf])
       (simp add: getTeamFeatures_Inr [OF assms] form_features_of)
qed

lemma form_arrays_example:
  "home_query example_db ''Arsenal'' = Inr (Some example_home_rows)
   \<and> away_query example_db ''Arsenal'' = Inr (Some example_away_rows)
   \<and> (\<exists>tf. getTeamFeatures example_db ''2024-01-01'' ''Arsenal'' = Inr tf
     \<and> recent_form_overall (form_features tf) =
         take 5 (recent_form_home (form_features tf) @ recent_form_away (form_features tf))
     \<and> length (recent_form_home (form_features tf)) \<le> 5
     \<and> length (recent_form_away (form_features tf)) \<le> 5
     \<and> length (recent_form_overall (form_features tf)) \<le> 5
     \<and> set (recent_form_home (form_features tf)) \<subseteq> {0, 1 / 2, 1}
     \<and> set (recent_form_away (form_features tf)) \<subseteq> {0, 1 / 2, 1}
     \<and> set (recent_form_overall (form_features tf)) \<subseteq> {0, 1 / 2, 1})"
proof -
  have h: "home_query example_db ''Arsenal'' = Inr (Some example_home_rows)"
    and a: "away_query example_db ''Arsenal'' = Inr (Some example_away_rows)"
    by (simp_all add: example_db_def)
  from form_arrays [OF h a, of "''2024-01-01''"] h a show ?thesis
    by blast
qed

text \<open>
  Claim C9. The overall form is meant to be the sequence of the team's five most recent
  matches, home and away together. The code does not compute it: for a team with five
  home wins at times 5 to 1 and an away defeat at time 10, the most recent five results
  are the defeat and four wins, and the code returns five wins.
\<close>

theorem overall_form_not_most_recent:
  "getTeamFeatures example_db ''2024-01-01'' ''Arsenal'' =
     Inr (teamFeatures_of ''2024-01-01'' ''Arsenal'' example_home_rows example_away_rows)
   \<and> recent_form_overall (form_features
        (teamFeatures_of ''2024-01-01'' ''Arsenal'' example_home_rows example_away_rows))
      = [1, 1, 1, 1, 1]
   \<and> spec_recent_form_overall ''Arsenal'' example_home_rows example_away_rows
      = [0, 1, 1, 1, 1]"
proof -
  have 1: "getTeamFeatures example_db ''2024-01-01'' ''Arsenal'' =
     Inr (teamFeatures_of ''2024-01-01'' ''Arsenal'' example_home_rows example_away_rows)"
    by (simp add: getTeamFeatures_def example_db_def data_or_empty_def)
  have 2: "recent_form_overall (form_features
        (teamFeatures_of ''2024-01-01'' ''Arsenal'' example_home_rows example_away_rows))
      = [1, 1, 1, 1, 1]"
    by (simp add: form_features_of example_home_rows_def example_away_rows_def example_row_def)
  have 3: "spec_recent_form_overall ''Arsenal'' example_home_rows example_away_rows
      = [0, 1, 1, 1, 1]"
    by (simp add: spec_recent_form_overall_def js_sort_def team_result_value_def
          example_home_rows_def example_away_rows_def example_row_def)
  from 1 2 3 show ?thesis by simp
qed

section \<open>Worked examples\<close>

text \<open>Three matches, one of each outcome: each percentage is 33.3 and the sum is 99.9.\<close>

lemma basic_example:
  "calculateBasicStats example_three =
     \<lparr>total_matches = 3, home_wins = 1, draws = 1, away_wins = 1, btts_count = 1,
      comeback_count = 1, avg_goals = Some (17 / 10), home_win_percentage = Some (333 / 10),
      draw_percentage = Some (333 / 10), away_win_percentage = Some (333 / 10),
      btts_percentage = Some (333 / 10), comeback_percentage = Some (333 / 10)\<rparr>"
  by code_simp

text \<open>
  Seven matches with five scorelines: the two scorelines with two matches come first, in
  the order in which they are first seen, then the first two of the three with one match.
\<close>

lemma frequent_results_example:
  "frequentResults (calculateDetailedStats example_seven) =
     [\<lparr>result = ''1-0'', count = 2, percentage = Some (286 / 10)\<rparr>,
      \<lparr>result = ''2-1'', count = 2, percentage = Some (286 / 10)\<rparr>,
      \<lparr>result = ''0-0'', count = 1, percentage = Some (143 / 10)\<rparr>,
      \<lparr>result = ''3-3'', count = 1, percentage = Some (143 / 10)\<rparr>]"
  by code_simp

lemma half_time_example:
  "halfTimeAnalysis (calculateDetailedStats example_seven) =
     \<lparr>ht_home_leads = 2, ht_away_leads = 2, ht_draws = 3,
      ht_home_lead_to_win = 1, ht_home_lead_to_draw = 1, ht_home_lead_to_loss = 0,
      ht_away_lead_to_win = 0, ht_away_lead_to_draw = 1, ht_away_lead_to_loss = 1,
      home_lead_hold_percentage = Some 50, away_lead_hold_percentage = Some 0\<rparr>"
  by code_simp

end
